theory Spec2Isabelle
  imports Complex_Main "HOL-Library.Word"
begin

unbundle bit_operations_syntax

text \<open>
  A model of \<^verbatim>\<open>unstructured/documents/elements.py\<close>: the metadata record, the element
  classes with their constructors, equality, dictionary and markdown forms, the cleaning
  pipeline \<^verbatim>\<open>Text.apply\<close> and the registry of text classes. Definitions come first,
  in the order of the source; the properties proved of them follow.
\<close>

section \<open>The library functions the element model calls\<close>

text \<open>
  \<^verbatim>\<open>Text.__init__\<close> derives an identifier with
  \<^verbatim>\<open>hashlib.sha256(text.encode()).hexdigest()[:32]\<close>. The two library calls are
  modelled here as functions that compute: \<^verbatim>\<open>str.encode\<close> and SHA-256 as FIPS 180-4
  defines it, on 32-bit words.

  A Python string is represented by an Isabelle \<^typ>\<open>string\<close> holding its UTF-8
  encoding, one \<^typ>\<open>char\<close> per byte; \<^verbatim>\<open>text.encode()\<close> then reads the bytes off.
\<close>

type_synonym byte = "8 word"
type_synonym w32 = "32 word"

definition encode :: "string \<Rightarrow> byte list" where
  "encode s = map of_char s"

definition rotr :: "nat \<Rightarrow> w32 \<Rightarrow> w32" where
  "rotr n x = drop_bit n x OR push_bit (32 - n) x"

definition Ch :: "w32 \<Rightarrow> w32 \<Rightarrow> w32 \<Rightarrow> w32" where
  "Ch x y z = (x AND y) XOR (NOT x AND z)"

definition Maj :: "w32 \<Rightarrow> w32 \<Rightarrow> w32 \<Rightarrow> w32" where
  "Maj x y z = (x AND y) XOR (x AND z) XOR (y AND z)"

definition Sigma0 :: "w32 \<Rightarrow> w32" where
  "Sigma0 x = rotr 2 x XOR rotr 13 x XOR rotr 22 x"

definition Sigma1 :: "w32 \<Rightarrow> w32" where
  "Sigma1 x = rotr 6 x XOR rotr 11 x XOR rotr 25 x"

definition sigma0 :: "w32 \<Rightarrow> w32" where
  "sigma0 x = rotr 7 x XOR rotr 18 x XOR drop_bit 3 x"

definition sigma1 :: "w32 \<Rightarrow> w32" where
  "sigma1 x = rotr 17 x XOR rotr 19 x XOR drop_bit 10 x"

text \<open>The round constants and the initial hash value of SHA-256.\<close>

definition K256 :: "w32 list" where
  "K256 =
    [0x428A2F98, 0x71374491, 0xB5C0FBCF, 0xE9B5DBA5, 0x3956C25B, 0x59F111F1, 0x923F82A4, 0xAB1C5ED5,
     0xD807AA98, 0x12835B01, 0x243185BE, 0x550C7DC3, 0x72BE5D74, 0x80DEB1FE, 0x9BDC06A7, 0xC19BF174,
     0xE49B69C1, 0xEFBE4786, 0x0FC19DC6, 0x240CA1CC, 0x2DE92C6F, 0x4A7484AA, 0x5CB0A9DC, 0x76F988DA,
     0x983E5152, 0xA831C66D, 0xB00327C8, 0xBF597FC7, 0xC6E00BF3, 0xD5A79147, 0x06CA6351, 0x14292967,
     0x27B70A85, 0x2E1B2138, 0x4D2C6DFC, 0x53380D13, 0x650A7354, 0x766A0ABB, 0x81C2C92E, 0x92722C85,
     0xA2BFE8A1, 0xA81A664B, 0xC24B8B70, 0xC76C51A3, 0xD192E819, 0xD6990624, 0xF40E3585, 0x106AA070,
     0x19A4C116, 0x1E376C08, 0x2748774C, 0x34B0BCB5, 0x391C0CB3, 0x4ED8AA4A, 0x5B9CCA4F, 0x682E6FF3,
     0x748F82EE, 0x78A5636F, 0x84C87814, 0x8CC70208, 0x90BEFFFA, 0xA4506CEB, 0xBEF9A3F7, 0xC67178F2]"

definition H256 :: "w32 list" where
  "H256 = [0x6A09E667, 0xBB67AE85, 0x3C6EF372, 0xA54FF53A,
           0x510E527F, 0x9B05688C, 0x1F83D9AB, 0x5BE0CD19]"

text \<open>
  Padding: the byte \<open>0x80\<close>, zero bytes up to 56 modulo 64, then the length of the
  message in bits as a 64-bit big-endian number.
\<close>

definition be64 :: "64 word \<Rightarrow> byte list" where
  "be64 n = map (\<lambda>i. ucast (drop_bit (8 * (7 - i)) n)) [0..<8]"

definition pad :: "byte list \<Rightarrow> byte list" where
  "pad m = m @ [0x80] @ replicate ((119 - length m mod 64) mod 64) 0 @ be64 (of_nat (8 * length m))"

fun be32 :: "byte list \<Rightarrow> w32" where
  "be32 [] = 0"
| "be32 (b # bs) = push_bit (8 * length bs) (ucast b) OR be32 bs"

function chunks :: "nat \<Rightarrow> 'a list \<Rightarrow> 'a list list" where
  "chunks n xs = (if n = 0 \<or> xs = [] then [] else take n xs # chunks n (drop n xs))"
  by pat_completeness auto
termination
  by (relation "measure (\<lambda>(n, xs). length xs)") auto

declare chunks.simps [simp del]

text \<open>The message schedule: 48 further words after the 16 of the block.\<close>

fun schedule :: "nat \<Rightarrow> w32 list \<Rightarrow> w32 list" where
  "schedule 0 w = w"
| "schedule (Suc k) w =
     (let t = length w
      in schedule k
           (w @ [sigma1 (w ! (t - 2)) + w ! (t - 7) + sigma0 (w ! (t - 15)) + w ! (t - 16)]))"

fun sha_round :: "w32 list \<Rightarrow> w32 \<times> w32 \<Rightarrow> w32 list" where
  "sha_round [a, b, c, d, e, f, g, h] (k, w) =
     (let T1 = h + Sigma1 e + Ch e f g + k + w;
          T2 = Sigma0 a + Maj a b c
      in [T1 + T2, a, b, c, d + T1, e, f, g])"
| "sha_round s _ = s"

definition compress :: "w32 list \<Rightarrow> byte list \<Rightarrow> w32 list" where
  "compress hs block =
     (let w = schedule 48 (map be32 (chunks 4 block))
      in map2 (+) hs (foldl sha_round hs (zip K256 w)))"

definition sha256 :: "byte list \<Rightarrow> w32 list" where
  "sha256 m = foldl compress H256 (chunks 64 (pad m))"

text \<open>\<^verbatim>\<open>hexdigest()\<close>: eight lowercase hexadecimal digits for each word of the digest.\<close>

definition hexchar :: "w32 \<Rightarrow> char" where
  "hexchar n = ''0123456789abcdef'' ! unat (n AND 0xF)"

definition hex32 :: "w32 \<Rightarrow> string" where
  "hex32 w = map (\<lambda>i. hexchar (drop_bit (4 * (7 - i)) w)) [0..<8]"

definition hexdigest :: "w32 list \<Rightarrow> string" where
  "hexdigest hs = concat (map hex32 hs)"


section \<open>Python values\<close>

text \<open>
  Python does not check the annotations of a field or of a callable's result, and the
  source asks for the run-time type in two places (\<^verbatim>\<open>isinstance(self.filename,
  pathlib.Path)\<close>, \<^verbatim>\<open>isinstance(cleaned_text, str)\<close>). The values that can stand there
  are a datatype: \<open>PPath s\<close> is a \<^verbatim>\<open>pathlib.Path\<close> whose \<^verbatim>\<open>str()\<close> is \<open>s\<close>.
\<close>

datatype pyval = PNone | PStr string | PInt int | PPath string

text \<open>
  An exception with its message: the \<^verbatim>\<open>ValueError\<close> of \<^verbatim>\<open>Text.apply\<close>, the
  \<^verbatim>\<open>TypeError\<close> of a call with an unknown keyword or a value of the wrong type, or
  any other exception a cleaner raises.
\<close>

datatype py_error = ValueError string | TypeError string | OtherException string

text \<open>\<^verbatim>\<open>Union[str, NoID]\<close>: an explicit identifier or the marker object.\<close>

datatype element_id = NoID | ID string

text \<open>What a dictionary made by \<^verbatim>\<open>to_dict\<close> holds under its keys.\<close>

datatype dict_value =
    DNone
  | DNoID
  | DStr string
  | DBool bool
  | DFloats "real list"
  | DDict "(string \<times> pyval) list"


section \<open>ElementMetadata\<close>

record ElementMetadata =
  filename :: pyval
  page_number :: pyval
  url :: pyval

definition post_init :: "ElementMetadata \<Rightarrow> ElementMetadata" where
  "post_init m = (case filename m of PPath s \<Rightarrow> m\<lparr>filename := PStr s\<rparr> | _ \<Rightarrow> m)"

text \<open>The constructor the dataclass generates, followed by \<^verbatim>\<open>__post_init__\<close>.\<close>

definition ElementMetadata_init :: "pyval \<Rightarrow> pyval \<Rightarrow> pyval \<Rightarrow> ElementMetadata" where
  "ElementMetadata_init f p u = post_init \<lparr>filename = f, page_number = p, url = u\<rparr>"

text \<open>\<^verbatim>\<open>ElementMetadata()\<close>, the default of every \<^verbatim>\<open>metadata\<close> parameter.\<close>

definition ElementMetadata_default :: ElementMetadata where
  "ElementMetadata_default = ElementMetadata_init PNone PNone PNone"

text \<open>\<^verbatim>\<open>self.__dict__.items()\<close>: the fields in the order of their declaration.\<close>

definition dict_items :: "ElementMetadata \<Rightarrow> (string \<times> pyval) list" where
  "dict_items m =
     [(''filename'', filename m), (''page_number'', page_number m), (''url'', url m)]"

definition ElementMetadata_to_dict :: "ElementMetadata \<Rightarrow> (string \<times> pyval) list" where
  "ElementMetadata_to_dict m = filter (\<lambda>(key, value). value \<noteq> PNone) (dict_items m)"

definition field_names :: "string list" where
  "field_names = [''filename'', ''page_number'', ''url'']"

text \<open>
  \<^verbatim>\<open>cls(**input_dict)\<close>: a key that is no field is a \<^verbatim>\<open>TypeError\<close>, a field with
  no key takes its default \<^verbatim>\<open>None\<close>.
\<close>

definition kwarg :: "(string \<times> pyval) list \<Rightarrow> string \<Rightarrow> pyval" where
  "kwarg d k = (case map_of d k of None \<Rightarrow> PNone | Some v \<Rightarrow> v)"

definition ElementMetadata_from_dict :: "(string \<times> pyval) list \<Rightarrow> py_error + ElementMetadata" where
  "ElementMetadata_from_dict input_dict =
     (case filter (\<lambda>k. k \<notin> set field_names) (map fst input_dict) of
        k # _ \<Rightarrow> Inl (TypeError (''unexpected keyword argument '' @ k))
      | [] \<Rightarrow> Inr (ElementMetadata_init (kwarg input_dict ''filename'')
                     (kwarg input_dict ''page_number'') (kwarg input_dict ''url'')))"


section \<open>Element and CheckBox\<close>

text \<open>
  The coordinates are \<^verbatim>\<open>Optional[List[float]]\<close>. The source stores them, compares
  them with \<^verbatim>\<open>==\<close> and hands them out; it never computes with them. They are
  modelled as real numbers.
\<close>

record Element =
  id' :: element_id
  coordinates :: "real list option"
  metadata :: ElementMetadata

definition Element_init :: "element_id \<Rightarrow> real list option \<Rightarrow> ElementMetadata \<Rightarrow> Element" where
  "Element_init element_id coords md = \<lparr>id' = element_id, coordinates = coords, metadata = md\<rparr>"

definition id_value :: "element_id \<Rightarrow> dict_value" where
  "id_value i = (case i of NoID \<Rightarrow> DNoID | ID s \<Rightarrow> DStr s)"

definition coordinates_value :: "real list option \<Rightarrow> dict_value" where
  "coordinates_value c = (case c of None \<Rightarrow> DNone | Some xs \<Rightarrow> DFloats xs)"

definition Element_to_dict :: "Element \<Rightarrow> (string \<times> dict_value) list" where
  "Element_to_dict self =
     [(''type'', DNone),
      (''coordinates'', coordinates_value (coordinates self)),
      (''element_id'', id_value (id' self)),
      (''metadata'', DDict (ElementMetadata_to_dict (metadata self)))]"

record CheckBox = Element +
  checked :: bool

definition CheckBox_init ::
  "element_id \<Rightarrow> real list option \<Rightarrow> bool \<Rightarrow> ElementMetadata \<Rightarrow> CheckBox" where
  "CheckBox_init element_id coords chk md =
     \<lparr>id' = element_id, coordinates = coords, metadata = md, checked = chk\<rparr>"

definition CheckBox_eq :: "CheckBox \<Rightarrow> CheckBox \<Rightarrow> bool" where
  "CheckBox_eq self other \<longleftrightarrow> checked self = checked other \<and> coordinates self = coordinates other"

definition CheckBox_to_dict :: "CheckBox \<Rightarrow> (string \<times> dict_value) list" where
  "CheckBox_to_dict self =
     [(''type'', DStr ''CheckBox''),
      (''checked'', DBool (checked self)),
      (''coordinates'', coordinates_value (coordinates self)),
      (''element_id'', id_value (id' self)),
      (''metadata'', DDict (ElementMetadata_to_dict (metadata self)))]"


section \<open>Text and its subclasses\<close>

text \<open>
  The class of a text element decides its \<^verbatim>\<open>category\<close> attribute, its constructor and
  its \<^verbatim>\<open>to_markdown\<close>; an instance carries it in the field \<open>cls\<close>.
\<close>

datatype text_class =
  Text | FigureCaption | NarrativeText | ListItem | Title | Address | Image' | PageBreak

fun category :: "text_class \<Rightarrow> string" where
  "category Text = ''UncategorizedText''"
| "category FigureCaption = ''FigureCaption''"
| "category NarrativeText = ''NarrativeText''"
| "category ListItem = ''ListItem''"
| "category Title = ''Title''"
| "category Address = ''Address''"
| "category Image' = ''Image''"
| "category PageBreak = ''PageBreak''"

record TextElement = Element +
  text' :: string
  cls :: text_class

text \<open>\<^verbatim>\<open>Text.__init__\<close>, which every subclass but \<^verbatim>\<open>PageBreak\<close> inherits.\<close>

definition Text_init ::
  "text_class \<Rightarrow> string \<Rightarrow> element_id \<Rightarrow> real list option \<Rightarrow> ElementMetadata \<Rightarrow> TextElement" where
  "Text_init c t element_id coords md =
     (let element_id =
            (case element_id of
               NoID \<Rightarrow> ID (take 32 (hexdigest (sha256 (encode t))))
             | ID s \<Rightarrow> ID s);
          base = Element_init element_id coords md
      in \<lparr>id' = id' base, coordinates = coordinates base, metadata = metadata base,
          text' = t, cls = c\<rparr>)"

text \<open>
  \<^verbatim>\<open>PageBreak.__init__\<close> calls \<^verbatim>\<open>super().__init__(text="<PAGE BREAK>")\<close>: the other
  parameters of \<^verbatim>\<open>Text.__init__\<close> take their defaults.
\<close>

definition PageBreak_init ::
  "string option \<Rightarrow> element_id \<Rightarrow> real list option \<Rightarrow> ElementMetadata \<Rightarrow> TextElement" where
  "PageBreak_init t element_id coords md =
     Text_init PageBreak ''<PAGE BREAK>'' NoID None ElementMetadata_default"

text \<open>Calling a class: Python runs the \<^verbatim>\<open>__init__\<close> the class defines or inherits.\<close>

definition call_class ::
  "text_class \<Rightarrow> string \<Rightarrow> element_id \<Rightarrow> real list option \<Rightarrow> ElementMetadata \<Rightarrow> TextElement" where
  "call_class c t element_id coords md =
     (if c = PageBreak then PageBreak_init (Some t) element_id coords md
      else Text_init c t element_id coords md)"

definition Text_eq :: "TextElement \<Rightarrow> TextElement \<Rightarrow> bool" where
  "Text_eq self other =
     list_all (\<lambda>b. b)
       [text' self = text' other,
        coordinates self = coordinates other,
        category (cls self) = category (cls other)]"

definition Text_to_dict :: "TextElement \<Rightarrow> (string \<times> dict_value) list" where
  "Text_to_dict self =
     [(''element_id'', id_value (id' self)),
      (''coordinates'', coordinates_value (coordinates self)),
      (''text'', DStr (text' self)),
      (''type'', DStr (category (cls self))),
      (''metadata'', DDict (ElementMetadata_to_dict (metadata self)))]"

text \<open>
  A cleaner is any callable: it is handed whatever the cleaner before it returned, and
  it returns a value or raises.
\<close>

type_synonym cleaner = "pyval \<Rightarrow> py_error + pyval"

text \<open>The loop of \<^verbatim>\<open>Text.apply\<close>; an exception of a cleaner ends it.\<close>

fun run_cleaners :: "cleaner list \<Rightarrow> pyval \<Rightarrow> py_error + pyval" where
  "run_cleaners [] cleaned_text = Inr cleaned_text"
| "run_cleaners (cleaner # cleaners) cleaned_text =
     (case cleaner cleaned_text of
        Inl err \<Rightarrow> Inl err
      | Inr v \<Rightarrow> run_cleaners cleaners v)"

text \<open>
  \<^verbatim>\<open>Text.apply\<close> mutates the element: the model returns what the call did (an
  exception or a plain return) together with the element as the call leaves it.
\<close>

definition Text_apply :: "cleaner list \<Rightarrow> TextElement \<Rightarrow> (py_error + unit) \<times> TextElement" where
  "Text_apply cleaners self =
     (case run_cleaners cleaners (PStr (text' self)) of
        Inl err \<Rightarrow> (Inl err, self)
      | Inr (PStr s) \<Rightarrow> (Inr (), self\<lparr>text' := s\<rparr>)
      | Inr _ \<Rightarrow> (Inl (ValueError ''Cleaner produced a non-string output.''), self))"

text \<open>
  An element after a series of calls of \<^verbatim>\<open>apply\<close>, one list of cleaners for each call;
  a call that raises leaves the element to the next call as it found it.
\<close>

fun apply_calls :: "cleaner list list \<Rightarrow> TextElement \<Rightarrow> TextElement" where
  "apply_calls [] self = self"
| "apply_calls (cleaners # calls) self = apply_calls calls (snd (Text_apply cleaners self))"

definition to_markdown :: "TextElement \<Rightarrow> string" where
  "to_markdown self =
     (case cls self of
        Text \<Rightarrow> ''![]('' @ text' self @ '')''
      | FigureCaption \<Rightarrow> ''![]('' @ text' self @ '')''
      | NarrativeText \<Rightarrow> text' self
      | ListItem \<Rightarrow> ''- '' @ text' self
      | Title \<Rightarrow> ''# '' @ text' self
      | Address \<Rightarrow> text' self
      | Image' \<Rightarrow> ''''
      | PageBreak \<Rightarrow> [CHR 0x0A, CHR 0x0A])"

text \<open>The registry, in the order of the source.\<close>

definition TYPE_TO_TEXT_ELEMENT_MAP :: "(string \<times> text_class) list" where
  "TYPE_TO_TEXT_ELEMENT_MAP =
     [(''UncategorizedText'', Text),
      (''FigureCaption'', FigureCaption),
      (''NarrativeText'', NarrativeText),
      (''ListItem'', ListItem),
      (''BulletedText'', ListItem),
      (''Title'', Title),
      (''Address'', Address),
      (''Image'', Image'),
      (''PageBreak'', PageBreak)]"


section \<open>Transforms used as inputs\<close>

text \<open>
  A transform of the documented kind, \<^verbatim>\<open>str -> str\<close>, as a callable: handed
  anything but a string it raises.
\<close>

definition str_transform :: "(string \<Rightarrow> string) \<Rightarrow> cleaner" where
  "str_transform f v =
     (case v of
        PStr s \<Rightarrow> Inr (PStr (f s))
      | _ \<Rightarrow> Inl (TypeError ''expected str''))"

text \<open>\<^verbatim>\<open>lambda t: t + suffix\<close>\<close>

definition append_suffix :: "string \<Rightarrow> string \<Rightarrow> string" where
  "append_suffix suffix t = t @ suffix"

text \<open>\<^verbatim>\<open>lambda t: r\<close>, whatever it is handed.\<close>

definition replace_with :: "string \<Rightarrow> cleaner" where
  "replace_with r v = Inr (PStr r)"

text \<open>\<^verbatim>\<open>lambda t: None\<close>\<close>

definition returns_none :: cleaner where
  "returns_none v = Inr PNone"


section \<open>The cleaning pipeline as the specification words it\<close>

text \<open>
  ``Transforms are applied strictly in the order given, each consuming the previous
  transform's output, starting from the element's current text'': a left fold over the
  transforms, \<open>f\<^sub>n (\<dots> (f\<^sub>2 (f\<^sub>1 t)))\<close>. For callables that may raise, the fold
  carries the exception on.
\<close>

definition left_to_right :: "(string \<Rightarrow> string) list \<Rightarrow> string \<Rightarrow> string" where
  "left_to_right fs t = foldl (\<lambda>acc f. f acc) t fs"

definition feed :: "py_error + pyval \<Rightarrow> cleaner \<Rightarrow> py_error + pyval" where
  "feed r f = (case r of Inl err \<Rightarrow> Inl err | Inr v \<Rightarrow> f v)"

definition chain_spec :: "cleaner list \<Rightarrow> pyval \<Rightarrow> py_error + pyval" where
  "chain_spec fs v = foldl feed (Inr v) fs"


section \<open>The digest: its shape and two known values\<close>

lemma sha_round_length: "length s = 8 \<Longrightarrow> length (sha_round s kw) = 8"
proof -
  assume "length s = 8"
  then obtain a b c d e f g h where "s = [a, b, c, d, e, f, g, h]"
    by (auto simp: length_Suc_conv eval_nat_numeral)
  then show ?thesis
    by (cases kw) (simp add: Let_def)
qed

lemma foldl_sha_round_length: "length s = 8 \<Longrightarrow> length (foldl sha_round s xs) = 8"
  by (induction xs arbitrary: s) (simp_all add: sha_round_length)

lemma compress_length: "length hs = 8 \<Longrightarrow> length (compress hs block) = 8"
  by (simp add: compress_def Let_def foldl_sha_round_length)

lemma foldl_compress_length: "length hs = 8 \<Longrightarrow> length (foldl compress hs blocks) = 8"
  by (induction blocks arbitrary: hs) (simp_all add: compress_length)

lemma sha256_length: "length (sha256 m) = 8"
  by (simp add: sha256_def foldl_compress_length H256_def)

lemma hex32_length: "length (hex32 w) = 8"
  by (simp add: hex32_def)

lemma hexdigest_length: "length (hexdigest hs) = 8 * length hs"
  by (induction hs) (simp_all add: hexdigest_def hex32_length)

lemma hexdigest_sha256_length: "length (hexdigest (sha256 m)) = 64"
  by (simp add: hexdigest_length sha256_length)

lemma hexchar_lowercase: "hexchar n \<in> set ''0123456789abcdef''"
proof -
  have "unat (n AND 0xF) \<le> unat (0xF :: w32)"
    by (rule word_and_le1 [THEN word_le_nat_alt [THEN iffD1]])
  then have "unat (n AND 0xF) < length ''0123456789abcdef''"
    by simp
  then show ?thesis
    unfolding hexchar_def by (rule nth_mem)
qed

lemma hexdigest_lowercase: "set (hexdigest hs) \<subseteq> set ''0123456789abcdef''"
  unfolding hexdigest_def hex32_def using hexchar_lowercase by auto

lemma derived_id_length: "length (take 32 (hexdigest (sha256 m))) = 32"
  by (simp add: hexdigest_sha256_length)

lemma derived_id_lowercase: "set (take 32 (hexdigest (sha256 m))) \<subseteq> set ''0123456789abcdef''"
  using hexdigest_lowercase [of "sha256 m"] set_take_subset [of 32 "hexdigest (sha256 m)"]
  by blast

text \<open>
  The digests \<^verbatim>\<open>hashlib\<close> prints for \<^verbatim>\<open>b"<PAGE BREAK>"\<close> and for \<^verbatim>\<open>b"abc"\<close> (the
  latter is the one-block test vector of FIPS 180-4), computed here from the definitions.
\<close>

lemma sha256_page_break:
  "hexdigest (sha256 (encode ''<PAGE BREAK>'')) =
     ''5ea24028ea5addabb8f07dfff681501d07dcf2cdfa1f84f2046942386e67b9f8''"
  by code_simp

lemma sha256_abc:
  "hexdigest (sha256 (encode ''abc'')) =
     ''ba7816bf8f01cfea414140de5dae2223b00361a396177a9cb410ff61f20015ad''"
  by code_simp

lemma page_break_id:
  "take 32 (hexdigest (sha256 (encode ''<PAGE BREAK>''))) = ''5ea24028ea5addabb8f07dfff681501d''"
  by (simp add: sha256_page_break)

lemma abc_id:
  "take 32 (hexdigest (sha256 (encode ''abc''))) = ''ba7816bf8f01cfea414140de5dae2223''"
  by (simp add: sha256_abc)


section \<open>Constructors\<close>

lemma Text_init_fields:
  "id' (Text_init c t i co md) =
     (case i of NoID \<Rightarrow> ID (take 32 (hexdigest (sha256 (encode t)))) | ID s \<Rightarrow> ID s)"
  "coordinates (Text_init c t i co md) = co"
  "metadata (Text_init c t i co md) = md"
  "text' (Text_init c t i co md) = t"
  "cls (Text_init c t i co md) = c"
  by (simp_all add: Text_init_def Element_init_def Let_def)

lemma PageBreak_init_fields:
  "id' (PageBreak_init t i co md) = ID (take 32 (hexdigest (sha256 (encode ''<PAGE BREAK>''))))"
  "coordinates (PageBreak_init t i co md) = None"
  "metadata (PageBreak_init t i co md) = ElementMetadata_default"
  "text' (PageBreak_init t i co md) = ''<PAGE BREAK>''"
  "cls (PageBreak_init t i co md) = PageBreak"
  by (simp_all add: PageBreak_init_def Text_init_fields)

text \<open>
  Claim C1, as amended. For every string \<open>s\<close> and every text class other than
  \<^verbatim>\<open>PageBreak\<close>, an element constructed with text \<open>s\<close> and no explicit identifier gets
  as identifier the first 32 characters of the lowercase hexadecimal SHA-256 digest of
  the bytes of \<open>s\<close>: 32 characters, each of \<open>0123456789abcdef\<close>. Two such elements with
  the same text get the same identifier, whatever their classes, coordinates and
  metadata, and an element constructed with an explicit string identifier keeps it. A
  \<^verbatim>\<open>PageBreak\<close> constructed with no explicit identifier gets the identifier derived in
  the same way from the literal \<^verbatim>\<open><PAGE BREAK>\<close>, whatever text it was handed.
\<close>

theorem identifier_at_construction:
  assumes "c \<noteq> PageBreak" and "c' \<noteq> PageBreak"
  shows "id' (call_class c s NoID co md) = ID (take 32 (hexdigest (sha256 (encode s))))
    \<and> length (take 32 (hexdigest (sha256 (encode s)))) = 32
    \<and> set (take 32 (hexdigest (sha256 (encode s)))) \<subseteq> set ''0123456789abcdef''
    \<and> id' (call_class c s NoID co md) = id' (call_class c' s NoID co' md')
    \<and> id' (call_class c s (ID x) co md) = ID x
    \<and> id' (call_class PageBreak s NoID co md) =
        ID (take 32 (hexdigest (sha256 (encode ''<PAGE BREAK>''))))"
proof (intro conjI)
  show "id' (call_class c s NoID co md) = ID (take 32 (hexdigest (sha256 (encode s))))"
    using assms(1) by (simp add: call_class_def Text_init_fields)
  show "length (take 32 (hexdigest (sha256 (encode s)))) = 32"
    by (rule derived_id_length)
  show "set (take 32 (hexdigest (sha256 (encode s)))) \<subseteq> set ''0123456789abcdef''"
    by (rule derived_id_lowercase)
  show "id' (call_class c s NoID co md) = id' (call_class c' s NoID co' md')"
    using assms by (simp add: call_class_def Text_init_fields)
  show "id' (call_class c s (ID x) co md) = ID x"
    using assms(1) by (simp add: call_class_def Text_init_fields)
  show "id' (call_class PageBreak s NoID co md) =
      ID (take 32 (hexdigest (sha256 (encode ''<PAGE BREAK>''))))"
    by (simp add: call_class_def PageBreak_init_fields)
qed

text \<open>
  Claim C1, witness: \<^verbatim>\<open>Title("abc")\<close> and a \<^verbatim>\<open>ListItem("abc", ...)\<close> with coordinates
  and a page number both get \<^verbatim>\<open>ba7816bf8f01cfea414140de5dae2223\<close>;
  \<^verbatim>\<open>Title("abc", element_id="my-id")\<close> keeps \<^verbatim>\<open>my-id\<close>.
\<close>

theorem identifier_at_construction_witness:
  "Title \<noteq> PageBreak \<and> ListItem \<noteq> PageBreak
   \<and> id' (call_class Title ''abc'' NoID None ElementMetadata_default) =
       ID ''ba7816bf8f01cfea414140de5dae2223''
   \<and> id' (call_class Title ''abc'' NoID None ElementMetadata_default) =
       id' (call_class ListItem ''abc'' NoID (Some [1, 2])
             (ElementMetadata_init PNone (PInt 3) PNone))
   \<and> id' (call_class Title ''abc'' (ID ''my-id'') None ElementMetadata_default) = ID ''my-id''
   \<and> id' (call_class PageBreak ''abc'' NoID None ElementMetadata_default) =
       ID ''5ea24028ea5addabb8f07dfff681501d''"
proof -
  have h: "Title \<noteq> PageBreak" "ListItem \<noteq> PageBreak"
    by simp_all
  from identifier_at_construction [where c = Title and c' = ListItem and s = "''abc''"
      and co = None and md = ElementMetadata_default and co' = "Some [1, 2]"
      and md' = "ElementMetadata_init PNone (PInt 3) PNone" and x = "''my-id''", OF h]
  show ?thesis
    unfolding abc_id page_break_id using h by blast
qed

text \<open>
  Claim C1 as stated fails for the class \<^verbatim>\<open>PageBreak\<close>:
  \<^verbatim>\<open>PageBreak(text="abc")\<close> does not get the identifier derived from \<^verbatim>\<open>"abc"\<close>, and
  \<^verbatim>\<open>PageBreak(text="abc", element_id="my-id")\<close> does not keep \<^verbatim>\<open>my-id\<close>.
\<close>

theorem PageBreak_identifier_counterexample:
  "id' (call_class PageBreak ''abc'' NoID None ElementMetadata_default) \<noteq>
     ID (take 32 (hexdigest (sha256 (encode ''abc''))))
   \<and> id' (call_class PageBreak ''abc'' (ID ''my-id'') None ElementMetadata_default) \<noteq>
       ID ''my-id''"
  by (simp add: call_class_def PageBreak_init_fields abc_id page_break_id)

text \<open>
  Claim C3. Whatever text, identifier, coordinates and metadata \<^verbatim>\<open>PageBreak\<close> is
  constructed with, the text of the instance is the literal \<^verbatim>\<open><PAGE BREAK>\<close> and the
  instance is the one constructed with no argument at all: its coordinates are absent,
  its metadata is the default and its identifier is the one \<^verbatim>\<open>Text.__init__\<close> derives
  from the literal.
\<close>

theorem PageBreak_init_discards_arguments:
  "text' (PageBreak_init t i co md) = ''<PAGE BREAK>''
   \<and> PageBreak_init t i co md = PageBreak_init None NoID None ElementMetadata_default
   \<and> call_class PageBreak s i co md = PageBreak_init None NoID None ElementMetadata_default
   \<and> coordinates (PageBreak_init t i co md) = None
   \<and> metadata (PageBreak_init t i co md) = ElementMetadata_default
   \<and> id' (PageBreak_init t i co md) =
       id' (Text_init PageBreak ''<PAGE BREAK>'' NoID None ElementMetadata_default)"
  by (simp add: PageBreak_init_def call_class_def Text_init_fields)


section \<open>The cleaning pipeline\<close>

lemma run_cleaners_append:
  "run_cleaners (gs @ hs) v =
     (case run_cleaners gs v of Inl err \<Rightarrow> Inl err | Inr u \<Rightarrow> run_cleaners hs u)"
  by (induction gs arbitrary: v) (simp_all split: sum.splits)

lemma foldl_feed_Inl: "foldl feed (Inl err) fs = Inl err"
  by (induction fs) (simp_all add: feed_def)

text \<open>The loop of the source computes what the specification's fold describes.\<close>

lemma run_cleaners_chain_spec: "run_cleaners fs v = chain_spec fs v"
proof (induction fs arbitrary: v)
  case Nil
  show ?case by (simp add: chain_spec_def)
next
  case (Cons f fs)
  show ?case
  proof (cases "f v")
    case (Inl err)
    then show ?thesis
      by (simp add: chain_spec_def feed_def foldl_feed_Inl)
  next
    case (Inr u)
    with Cons.IH [of u] show ?thesis
      by (simp add: chain_spec_def feed_def)
  qed
qed

lemma run_cleaners_str_transform:
  "run_cleaners (map str_transform fs) (PStr t) = Inr (PStr (left_to_right fs t))"
  by (induction fs arbitrary: t) (simp_all add: str_transform_def left_to_right_def)

lemma Text_apply_cases:
  "Text_apply cleaners e =
     (case run_cleaners cleaners (PStr (text' e)) of
        Inl err \<Rightarrow> (Inl err, e)
      | Inr v \<Rightarrow>
          (case v of
             PStr s \<Rightarrow> (Inr (), e\<lparr>text' := s\<rparr>)
           | _ \<Rightarrow> (Inl (ValueError ''Cleaner produced a non-string output.''), e)))"
  by (simp add: Text_apply_def split: sum.splits pyval.splits)

text \<open>\<^verbatim>\<open>Text.apply\<close> assigns to \<^verbatim>\<open>self.text\<close> and to nothing else.\<close>

lemma Text_apply_frame:
  "id' (snd (Text_apply cleaners e)) = id' e"
  "coordinates (snd (Text_apply cleaners e)) = coordinates e"
  "metadata (snd (Text_apply cleaners e)) = metadata e"
  "cls (snd (Text_apply cleaners e)) = cls e"
  by (simp_all add: Text_apply_cases split: sum.splits pyval.splits)

text \<open>
  Claim C2. A call of \<^verbatim>\<open>apply\<close> that returns leaves the identifier of the element as it
  was, for every text element and every sequence of cleaners. For an element fresh from
  \<^verbatim>\<open>Text.__init__\<close> that is the identifier derived from the text it was constructed
  with, or the explicit identifier it was given, whatever the text is afterwards.
\<close>

theorem apply_keeps_identifier:
  "(Text_apply cleaners e = (Inr (), e') \<longrightarrow> id' e' = id' e)
   \<and> (Text_apply cleaners (Text_init c s NoID co md) = (Inr (), e') \<longrightarrow>
        id' e' = ID (take 32 (hexdigest (sha256 (encode s)))))
   \<and> (Text_apply cleaners (Text_init c s (ID x) co md) = (Inr (), e') \<longrightarrow> id' e' = ID x)"
proof -
  have frame: "id' e' = id' e0" if "Text_apply cleaners e0 = (Inr (), e')" for e0
    using Text_apply_frame(1) [of cleaners e0] that by simp
  show ?thesis
    by (auto dest!: frame simp: Text_init_fields)
qed

text \<open>
  Claim C2, witness: \<^verbatim>\<open>Text("abc")\<close>, then \<^verbatim>\<open>apply(lambda t: "xyz")\<close>. The text is
  \<^verbatim>\<open>xyz\<close> and the identifier is still the one derived from \<^verbatim>\<open>abc\<close>.
\<close>

theorem apply_keeps_identifier_witness:
  "Text_apply [replace_with ''xyz''] (Text_init Text ''abc'' NoID None ElementMetadata_default) =
     (Inr (), (Text_init Text ''abc'' NoID None ElementMetadata_default)\<lparr>text' := ''xyz''\<rparr>)
   \<and> text' ((Text_init Text ''abc'' NoID None ElementMetadata_default)\<lparr>text' := ''xyz''\<rparr>) =
       ''xyz''
   \<and> id' ((Text_init Text ''abc'' NoID None ElementMetadata_default)\<lparr>text' := ''xyz''\<rparr>) =
       ID ''ba7816bf8f01cfea414140de5dae2223''"
proof -
  let ?e = "Text_init Text ''abc'' NoID None ElementMetadata_default"
  have run: "Text_apply [replace_with ''xyz''] ?e = (Inr (), ?e\<lparr>text' := ''xyz''\<rparr>)"
    by (simp add: Text_apply_cases replace_with_def)
  from apply_keeps_identifier [of "[replace_with ''xyz'']" ?e "?e\<lparr>text' := ''xyz''\<rparr>"
      Text "''abc''" None ElementMetadata_default "''unused''"] run
  have "id' (?e\<lparr>text' := ''xyz''\<rparr>) = ID (take 32 (hexdigest (sha256 (encode ''abc''))))"
    by blast
  with run abc_id show ?thesis
    by simp
qed

text \<open>
  Claim C4, as amended. \<^verbatim>\<open>apply\<close> looks at one value only, the one the chain ends
  with: when every cleaner returns, the call raises the validation error exactly when
  that value is not a string. With at least one cleaner it is the output of the last
  one; what an earlier cleaner returns is handed to the next one unchecked.
\<close>

theorem apply_validates_final_value:
  assumes "run_cleaners cleaners (PStr (text' e)) = Inr v"
  shows "(Text_apply cleaners e =
            (Inl (ValueError ''Cleaner produced a non-string output.''), e)
          \<longleftrightarrow> (\<forall>s. v \<noteq> PStr s))
    \<and> (cleaners = gs @ [g] \<longrightarrow>
          (\<exists>u. run_cleaners gs (PStr (text' e)) = Inr u \<and> g u = Inr v))"
proof (intro conjI impI)
  show "Text_apply cleaners e =
            (Inl (ValueError ''Cleaner produced a non-string output.''), e)
          \<longleftrightarrow> (\<forall>s. v \<noteq> PStr s)"
    using assms by (cases v) (simp_all add: Text_apply_cases)
next
  assume "cleaners = gs @ [g]"
  with assms show "\<exists>u. run_cleaners gs (PStr (text' e)) = Inr u \<and> g u = Inr v"
    by (auto simp: run_cleaners_append split: sum.splits)
qed

text \<open>
  Claim C4, witness: \<^verbatim>\<open>apply(lambda t: "x", lambda t: None)\<close> on a title with text
  \<^verbatim>\<open>abc\<close>. The last cleaner returns \<^verbatim>\<open>None\<close> and the call raises.
\<close>

theorem apply_validates_final_value_witness:
  "run_cleaners [replace_with ''x'', returns_none]
      (PStr (text' (Text_init Title ''abc'' (ID ''e1'') None ElementMetadata_default))) =
     Inr PNone
   \<and> Text_apply [replace_with ''x'', returns_none]
        (Text_init Title ''abc'' (ID ''e1'') None ElementMetadata_default) =
       (Inl (ValueError ''Cleaner produced a non-string output.''),
        Text_init Title ''abc'' (ID ''e1'') None ElementMetadata_default)
   \<and> run_cleaners [replace_with ''x''] (PStr ''abc'') = Inr (PStr ''x'')
   \<and> returns_none (PStr ''x'') = Inr PNone"
proof -
  let ?e = "Text_init Title ''abc'' (ID ''e1'') None ElementMetadata_default"
  have run: "run_cleaners [replace_with ''x'', returns_none] (PStr (text' ?e)) = Inr PNone"
    by (simp add: replace_with_def returns_none_def)
  from apply_validates_final_value [OF run, of "[replace_with ''x'']" returns_none]
  have "Text_apply [replace_with ''x'', returns_none] ?e =
      (Inl (ValueError ''Cleaner produced a non-string output.''), ?e)"
    by simp
  with run show ?thesis
    by (simp add: replace_with_def returns_none_def)
qed

text \<open>
  Claim C4 as stated fails: in \<^verbatim>\<open>apply(lambda t: None, lambda t: "ok")\<close> the first
  cleaner's output is not a string, and the call returns with the text set to \<^verbatim>\<open>ok\<close>.
\<close>

theorem intermediate_output_counterexample:
  "returns_none (PStr ''abc'') = Inr PNone
   \<and> Text_apply [returns_none, replace_with ''ok'']
        (Text_init Title ''abc'' (ID ''e1'') None ElementMetadata_default) =
       (Inr (),
        (Text_init Title ''abc'' (ID ''e1'') None ElementMetadata_default)\<lparr>text' := ''ok''\<rparr>)"
  by (simp add: Text_apply_cases Text_init_fields replace_with_def returns_none_def)

text \<open>
  Claim C5. When \<^verbatim>\<open>apply\<close> returns, the text of the element is what the cleaners make
  of the text it had, applied from left to right, each to the output of the one before,
  and nothing else of the element has changed; when \<^verbatim>\<open>apply\<close> raises (the validation
  error or an exception of a cleaner) the element is as it was. For transforms from
  strings to strings the call always returns, with the text
  \<open>f\<^sub>n (\<dots> (f\<^sub>2 (f\<^sub>1 t)))\<close>.
\<close>

theorem apply_left_to_right:
  "(Text_apply cleaners e = (Inr (), e') \<longrightarrow>
      (\<exists>r. chain_spec cleaners (PStr (text' e)) = Inr (PStr r) \<and> e' = e\<lparr>text' := r\<rparr>))
   \<and> (Text_apply cleaners e = (Inl err, e') \<longrightarrow> e' = e)
   \<and> Text_apply (map str_transform fs) e =
       (Inr (), e\<lparr>text' := left_to_right fs (text' e)\<rparr>)"
proof (intro conjI impI)
  assume "Text_apply cleaners e = (Inr (), e')"
  then show "\<exists>r. chain_spec cleaners (PStr (text' e)) = Inr (PStr r) \<and> e' = e\<lparr>text' := r\<rparr>"
    by (auto simp: Text_apply_cases run_cleaners_chain_spec split: sum.splits pyval.splits)
next
  assume "Text_apply cleaners e = (Inl err, e')"
  then show "e' = e"
    by (auto simp: Text_apply_cases split: sum.splits pyval.splits)
next
  show "Text_apply (map str_transform fs) e =
      (Inr (), e\<lparr>text' := left_to_right fs (text' e)\<rparr>)"
    by (simp add: Text_apply_cases run_cleaners_str_transform)
qed

text \<open>
  Claim C5, witness: \<^verbatim>\<open>apply(lambda t: t + "!", lambda t: t + "?")\<close> turns \<^verbatim>\<open>hi\<close> into
  \<^verbatim>\<open>hi!?\<close>, and \<^verbatim>\<open>apply(lambda t: None)\<close> raises and leaves the element alone.
\<close>

theorem apply_left_to_right_witness:
  "Text_apply [str_transform (append_suffix ''!''), str_transform (append_suffix ''?'')]
      (Text_init Title ''hi'' (ID ''e1'') None ElementMetadata_default) =
     (Inr (),
      (Text_init Title ''hi'' (ID ''e1'') None ElementMetadata_default)\<lparr>text' := ''hi!?''\<rparr>)
   \<and> chain_spec [str_transform (append_suffix ''!''), str_transform (append_suffix ''?'')]
        (PStr ''hi'') = Inr (PStr ''hi!?'')
   \<and> Text_apply [returns_none] (Text_init Title ''hi'' (ID ''e1'') None ElementMetadata_default) =
       (Inl (ValueError ''Cleaner produced a non-string output.''),
        Text_init Title ''hi'' (ID ''e1'') None ElementMetadata_default)"
proof -
  let ?e = "Text_init Title ''hi'' (ID ''e1'') None ElementMetadata_default"
  let ?fs = "[append_suffix ''!'', append_suffix ''?'']"
  let ?err = "ValueError ''Cleaner produced a non-string output.''"
  note th = apply_left_to_right [of "map str_transform ?fs" ?e "?e\<lparr>text' := ''hi!?''\<rparr>" ?err ?fs]
  have ok: "Text_apply (map str_transform ?fs) ?e = (Inr (), ?e\<lparr>text' := ''hi!?''\<rparr>)"
    using th by (simp add: left_to_right_def append_suffix_def Text_init_fields)
  with th obtain r where r: "chain_spec (map str_transform ?fs) (PStr (text' ?e)) = Inr (PStr r)"
      and upd: "?e\<lparr>text' := ''hi!?''\<rparr> = ?e\<lparr>text' := r\<rparr>"
    by blast
  have "text' (?e\<lparr>text' := ''hi!?''\<rparr>) = text' (?e\<lparr>text' := r\<rparr>)"
    by (simp only: upd)
  then have "r = ''hi!?''"
    by simp
  with r have spec: "chain_spec (map str_transform ?fs) (PStr ''hi'') = Inr (PStr ''hi!?'')"
    by (simp add: Text_init_fields)
  have bad: "Text_apply [returns_none] ?e = (Inl ?err, ?e)"
    by (simp add: Text_apply_cases returns_none_def)
  from ok spec bad show ?thesis
    by simp
qed


section \<open>Metadata\<close>

lemma post_init_idem: "post_init (post_init m) = post_init m"
  by (simp add: post_init_def split: pyval.splits)

lemma from_dict_to_dict:
  "ElementMetadata_from_dict (ElementMetadata_to_dict m) = Inr (post_init m)"
  by (cases m)
    (simp add: ElementMetadata_from_dict_def ElementMetadata_to_dict_def dict_items_def
      field_names_def kwarg_def ElementMetadata_init_def)

lemma default_metadata_empty: "ElementMetadata_to_dict ElementMetadata_default = []"
  by (simp add: ElementMetadata_default_def ElementMetadata_init_def post_init_def
      ElementMetadata_to_dict_def dict_items_def)

text \<open>
  Claim C6. For every metadata record the constructor makes, \<^verbatim>\<open>from_dict\<close> of its
  \<^verbatim>\<open>to_dict\<close> returns the record itself (for any record at all, the record with a
  path-like file name turned into its string). The dictionary holds a field's key
  exactly when the field is not \<^verbatim>\<open>None\<close>, with the field's value; it has no other
  key, no key twice and no \<^verbatim>\<open>None\<close> value. A record with only the page number set
  gives the dictionary with the single key \<^verbatim>\<open>page_number\<close>.
\<close>

theorem metadata_round_trip:
  "ElementMetadata_from_dict (ElementMetadata_to_dict (ElementMetadata_init f p u)) =
     Inr (ElementMetadata_init f p u)
   \<and> ElementMetadata_from_dict (ElementMetadata_to_dict m) = Inr (post_init m)
   \<and> map_of (ElementMetadata_to_dict m) ''filename'' =
       (if filename m = PNone then None else Some (filename m))
   \<and> map_of (ElementMetadata_to_dict m) ''page_number'' =
       (if page_number m = PNone then None else Some (page_number m))
   \<and> map_of (ElementMetadata_to_dict m) ''url'' =
       (if url m = PNone then None else Some (url m))
   \<and> set (map fst (ElementMetadata_to_dict m)) \<subseteq> set field_names
   \<and> distinct (map fst (ElementMetadata_to_dict m))
   \<and> PNone \<notin> snd ` set (ElementMetadata_to_dict m)
   \<and> ElementMetadata_to_dict (ElementMetadata_init PNone (PInt n) PNone) =
       [(''page_number'', PInt n)]"
proof (intro conjI)
  show "ElementMetadata_from_dict (ElementMetadata_to_dict (ElementMetadata_init f p u)) =
     Inr (ElementMetadata_init f p u)"
    by (simp add: from_dict_to_dict ElementMetadata_init_def post_init_idem)
  show "ElementMetadata_from_dict (ElementMetadata_to_dict m) = Inr (post_init m)"
    by (rule from_dict_to_dict)
  show "map_of (ElementMetadata_to_dict m) ''filename'' =
       (if filename m = PNone then None else Some (filename m))"
    by (simp add: ElementMetadata_to_dict_def dict_items_def)
  show "map_of (ElementMetadata_to_dict m) ''page_number'' =
       (if page_number m = PNone then None else Some (page_number m))"
    by (simp add: ElementMetadata_to_dict_def dict_items_def)
  show "map_of (ElementMetadata_to_dict m) ''url'' =
       (if url m = PNone then None else Some (url m))"
    by (simp add: ElementMetadata_to_dict_def dict_items_def)
  show "set (map fst (ElementMetadata_to_dict m)) \<subseteq> set field_names"
    by (auto simp: ElementMetadata_to_dict_def dict_items_def field_names_def)
  show "distinct (map fst (ElementMetadata_to_dict m))"
    by (simp add: ElementMetadata_to_dict_def dict_items_def)
  show "PNone \<notin> snd ` set (ElementMetadata_to_dict m)"
    by (auto simp: ElementMetadata_to_dict_def dict_items_def)
  show "ElementMetadata_to_dict (ElementMetadata_init PNone (PInt n) PNone) =
       [(''page_number'', PInt n)]"
    by (simp add: ElementMetadata_to_dict_def dict_items_def ElementMetadata_init_def
        post_init_def)
qed


section \<open>Equality and rendering\<close>

lemma category_inject: "category c = category d \<longleftrightarrow> c = d"
  by (cases c; cases d) simp_all

text \<open>
  Claim C7. Two text elements are equal exactly when their texts, their coordinates and
  their categories agree (and the categories agree exactly when the classes do); two
  check boxes are equal exactly when their \<^verbatim>\<open>checked\<close> flags and their coordinates
  agree. Identifier and metadata play no part: elements that differ in nothing else are
  equal.
\<close>

theorem equality_excludes_id_and_metadata:
  "(Text_eq a b \<longleftrightarrow>
      text' a = text' b \<and> coordinates a = coordinates b \<and> category (cls a) = category (cls b))
   \<and> (category (cls a) = category (cls b) \<longleftrightarrow> cls a = cls b)
   \<and> Text_eq (a\<lparr>id' := i, metadata := md\<rparr>) (a\<lparr>id' := j, metadata := md'\<rparr>)
   \<and> (CheckBox_eq x y \<longleftrightarrow> checked x = checked y \<and> coordinates x = coordinates y)
   \<and> CheckBox_eq (x\<lparr>id' := i, metadata := md\<rparr>) (x\<lparr>id' := j, metadata := md'\<rparr>)"
  by (simp add: Text_eq_def CheckBox_eq_def category_inject)

text \<open>
  Claim C8. The markdown of a text element with text \<open>t\<close>, class by class:
  \<^verbatim>\<open>Text\<close> (category \<^verbatim>\<open>UncategorizedText\<close>) and \<^verbatim>\<open>FigureCaption\<close> give \<open>![](t)\<close>,
  \<^verbatim>\<open>NarrativeText\<close> and \<^verbatim>\<open>Address\<close> give \<open>t\<close>, \<^verbatim>\<open>ListItem\<close> gives \<open>- t\<close>, \<^verbatim>\<open>Title\<close>
  gives \<open># t\<close>, \<^verbatim>\<open>Image\<close> gives the empty string and \<^verbatim>\<open>PageBreak\<close> gives two newline
  characters, whatever its text.
\<close>

theorem to_markdown_table:
  "to_markdown (e\<lparr>cls := Text\<rparr>) = ''![]('' @ text' e @ '')''
   \<and> to_markdown (e\<lparr>cls := FigureCaption\<rparr>) = ''![]('' @ text' e @ '')''
   \<and> to_markdown (e\<lparr>cls := NarrativeText\<rparr>) = text' e
   \<and> to_markdown (e\<lparr>cls := Address\<rparr>) = text' e
   \<and> to_markdown (e\<lparr>cls := ListItem\<rparr>) = ''- '' @ text' e
   \<and> to_markdown (e\<lparr>cls := Title\<rparr>) = ''# '' @ text' e
   \<and> to_markdown (e\<lparr>cls := Image'\<rparr>) = ''''
   \<and> to_markdown (e\<lparr>cls := PageBreak\<rparr>) = [CHR 0x0A, CHR 0x0A]
   \<and> category (cls (e\<lparr>cls := Text\<rparr>)) = ''UncategorizedText''"
  by (simp add: to_markdown_def)


section \<open>The registry\<close>

text \<open>
  Every tag of the registry but \<^verbatim>\<open>PageBreak\<close> names a class whose constructor keeps a
  stored identifier.
\<close>

lemma registry_keeps_stored_id:
  assumes "map_of TYPE_TO_TEXT_ELEMENT_MAP tag = Some c" and "tag \<noteq> ''PageBreak''"
  shows "id' (call_class c t (ID stored) co md) = ID stored"
proof -
  from assms have "c \<noteq> PageBreak"
    by (auto simp: TYPE_TO_TEXT_ELEMENT_MAP_def split: if_splits)
  then show ?thesis
    by (simp add: call_class_def Text_init_fields)
qed

lemma registry_keeps_stored_id_witness:
  "map_of TYPE_TO_TEXT_ELEMENT_MAP ''BulletedText'' = Some ListItem
   \<and> ''BulletedText'' \<noteq> ''PageBreak''
   \<and> id' (call_class ListItem ''x'' (ID ''stored-id-0001'') None ElementMetadata_default) =
       ID ''stored-id-0001''"
proof -
  have h: "map_of TYPE_TO_TEXT_ELEMENT_MAP ''BulletedText'' = Some ListItem"
      "''BulletedText'' \<noteq> ''PageBreak''"
    by (simp_all add: TYPE_TO_TEXT_ELEMENT_MAP_def)
  from registry_keeps_stored_id [OF h, of "''x''" "''stored-id-0001''" None ElementMetadata_default] h
  show ?thesis
    by simp
qed

text \<open>
  Claim C9 asks that the constructor the registry gives for a tag keep the identifier
  stored in the dictionary. For the tag \<^verbatim>\<open>PageBreak\<close> the code does not: the
  registry gives the class \<^verbatim>\<open>PageBreak\<close>, and
  \<^verbatim>\<open>PageBreak(text="<PAGE BREAK>", element_id="stored-id-0001")\<close> has the identifier
  derived from the literal, not the stored one.
\<close>

theorem PageBreak_registry_drops_stored_id:
  "map_of TYPE_TO_TEXT_ELEMENT_MAP ''PageBreak'' = Some PageBreak
   \<and> id' (call_class PageBreak ''<PAGE BREAK>'' (ID ''stored-id-0001'') None
            ElementMetadata_default) =
       ID ''5ea24028ea5addabb8f07dfff681501d''
   \<and> id' (call_class PageBreak ''<PAGE BREAK>'' (ID ''stored-id-0001'') None
            ElementMetadata_default) \<noteq>
       ID ''stored-id-0001''"
  by (simp add: TYPE_TO_TEXT_ELEMENT_MAP_def call_class_def PageBreak_init_fields page_break_id)


section \<open>Page breaks\<close>

text \<open>Calls of \<^verbatim>\<open>apply\<close>, returning or raising, change nothing but the text.\<close>

lemma apply_calls_frame:
  "id' (apply_calls css e) = id' e"
  "coordinates (apply_calls css e) = coordinates e"
  "metadata (apply_calls css e) = metadata e"
  "cls (apply_calls css e) = cls e"
  by (induction css arbitrary: e) (simp_all add: Text_apply_frame)

lemma apply_calls_PageBreak_fields:
  "id' (apply_calls css (PageBreak_init t i co md)) =
     ID (take 32 (hexdigest (sha256 (encode ''<PAGE BREAK>''))))"
  "coordinates (apply_calls css (PageBreak_init t i co md)) = None"
  "metadata (apply_calls css (PageBreak_init t i co md)) = ElementMetadata_default"
  "cls (apply_calls css (PageBreak_init t i co md)) = PageBreak"
  by (simp_all add: apply_calls_frame PageBreak_init_fields)

lemma TextElement_eq_iff:
  fixes p q :: TextElement
  shows "p = q \<longleftrightarrow>
    id' p = id' q \<and> coordinates p = coordinates q \<and> metadata p = metadata q
    \<and> text' p = text' q \<and> cls p = cls q"
  by (cases p; cases q) auto

text \<open>
  Claim C10, as amended. A \<^verbatim>\<open>PageBreak\<close> instance is what the constructor returns,
  with any arguments, after any calls of \<^verbatim>\<open>apply\<close>. Every instance has the identifier
  derived from the literal \<^verbatim>\<open><PAGE BREAK>\<close>, which is
  \<^verbatim>\<open>5ea24028ea5addabb8f07dfff681501d\<close>, no coordinates and the default metadata, whose
  dictionary is empty, and its markdown is two newline characters. Two instances are
  the same value, are equal and have the same dictionary exactly when their texts agree.
  So any two instances whose text is the literal still, and any two fresh from their
  constructors, are equal and have the same dictionary and the same markdown; an
  instance whose text \<^verbatim>\<open>apply\<close> has changed is not equal to one whose text is the
  literal, and its dictionary is another.
\<close>

theorem PageBreak_instances_alike:
  fixes p q :: TextElement
  assumes p: "p = apply_calls css (PageBreak_init t i co md)"
    and q: "q = apply_calls css' (PageBreak_init t' i' co' md')"
  shows "id' p = ID (take 32 (hexdigest (sha256 (encode ''<PAGE BREAK>''))))
   \<and> id' p = ID ''5ea24028ea5addabb8f07dfff681501d''
   \<and> coordinates p = None
   \<and> metadata p = ElementMetadata_default
   \<and> ElementMetadata_to_dict (metadata p) = []
   \<and> to_markdown p = [CHR 0x0A, CHR 0x0A]
   \<and> to_markdown p = to_markdown q
   \<and> (p = q \<longleftrightarrow> text' p = text' q)
   \<and> (Text_eq p q \<longleftrightarrow> text' p = text' q)
   \<and> (Text_to_dict p = Text_to_dict q \<longleftrightarrow> text' p = text' q)
   \<and> (text' p = ''<PAGE BREAK>'' \<and> text' q = ''<PAGE BREAK>'' \<longrightarrow>
        p = q \<and> Text_eq p q \<and> Text_to_dict p = Text_to_dict q \<and> to_markdown p = to_markdown q)
   \<and> (text' p \<noteq> ''<PAGE BREAK>'' \<and> text' q = ''<PAGE BREAK>'' \<longrightarrow>
        p \<noteq> q \<and> \<not> Text_eq p q \<and> Text_to_dict p \<noteq> Text_to_dict q)
   \<and> PageBreak_init t i co md = PageBreak_init t' i' co' md'
   \<and> Text_eq (PageBreak_init t i co md) (PageBreak_init t' i' co' md')
   \<and> Text_to_dict (PageBreak_init t i co md) = Text_to_dict (PageBreak_init t' i' co' md')
   \<and> to_markdown (PageBreak_init t i co md) = to_markdown (PageBreak_init t' i' co' md')"
proof -
  note fp = apply_calls_PageBreak_fields [of css t i co md, folded p]
  note fq = apply_calls_PageBreak_fields [of css' t' i' co' md', folded q]
  have same: "p = q \<longleftrightarrow> text' p = text' q"
    by (simp add: TextElement_eq_iff fp fq)
  have eq: "Text_eq p q \<longleftrightarrow> text' p = text' q"
    by (simp add: Text_eq_def fp fq)
  have dict: "Text_to_dict p = Text_to_dict q \<longleftrightarrow> text' p = text' q"
    by (simp add: Text_to_dict_def fp fq)
  have mdp: "to_markdown p = [CHR 0x0A, CHR 0x0A]"
    by (simp add: to_markdown_def fp)
  have mdq: "to_markdown q = [CHR 0x0A, CHR 0x0A]"
    by (simp add: to_markdown_def fq)
  have fresh: "PageBreak_init t i co md = PageBreak_init t' i' co' md'"
    by (simp add: PageBreak_init_def)
  have fresh_eq: "Text_eq (PageBreak_init t i co md) (PageBreak_init t' i' co' md')"
    by (simp add: Text_eq_def PageBreak_init_fields)
  have fresh_dict:
    "Text_to_dict (PageBreak_init t i co md) = Text_to_dict (PageBreak_init t' i' co' md')"
    by (simp add: Text_to_dict_def PageBreak_init_fields)
  have fresh_md:
    "to_markdown (PageBreak_init t i co md) = to_markdown (PageBreak_init t' i' co' md')"
    by (simp add: to_markdown_def PageBreak_init_fields)
  have id32: "id' p = ID ''5ea24028ea5addabb8f07dfff681501d''"
    by (simp add: fp page_break_id)
  have empty: "ElementMetadata_to_dict (metadata p) = []"
    by (simp add: fp default_metadata_empty)
  show ?thesis
  proof (intro conjI impI)
    show "id' p = ID (take 32 (hexdigest (sha256 (encode ''<PAGE BREAK>''))))"
      by (rule fp)
    show "id' p = ID ''5ea24028ea5addabb8f07dfff681501d''"
      by (rule id32)
    show "coordinates p = None"
      by (rule fp)
    show "metadata p = ElementMetadata_default"
      by (rule fp)
    show "ElementMetadata_to_dict (metadata p) = []"
      by (rule empty)
    show "to_markdown p = [CHR 0x0A, CHR 0x0A]"
      by (rule mdp)
    show "to_markdown p = to_markdown q"
      by (simp only: mdp mdq)
    show "p = q \<longleftrightarrow> text' p = text' q"
      by (rule same)
    show "Text_eq p q \<longleftrightarrow> text' p = text' q"
      by (rule eq)
    show "Text_to_dict p = Text_to_dict q \<longleftrightarrow> text' p = text' q"
      by (rule dict)
    show "PageBreak_init t i co md = PageBreak_init t' i' co' md'"
      by (rule fresh)
    show "Text_eq (PageBreak_init t i co md) (PageBreak_init t' i' co' md')"
      by (rule fresh_eq)
    show "Text_to_dict (PageBreak_init t i co md) = Text_to_dict (PageBreak_init t' i' co' md')"
      by (rule fresh_dict)
    show "to_markdown (PageBreak_init t i co md) = to_markdown (PageBreak_init t' i' co' md')"
      by (rule fresh_md)
  next
    assume "text' p = ''<PAGE BREAK>'' \<and> text' q = ''<PAGE BREAK>''"
    then have "text' p = text' q"
      by simp
    then show "p = q" "Text_eq p q" "Text_to_dict p = Text_to_dict q"
      using same eq dict by blast+
    show "to_markdown p = to_markdown q"
      by (simp only: mdp mdq)
  next
    assume "text' p \<noteq> ''<PAGE BREAK>'' \<and> text' q = ''<PAGE BREAK>''"
    then have "text' p \<noteq> text' q"
      by simp
    then show "p \<noteq> q" "\<not> Text_eq p q" "Text_to_dict p \<noteq> Text_to_dict q"
      using same eq dict by blast+
  qed
qed

text \<open>
  Claim C10, witness: \<^verbatim>\<open>PageBreak("a", element_id="i1")\<close> after a call of \<^verbatim>\<open>apply\<close>
  that raises, next to \<^verbatim>\<open>PageBreak()\<close>: both have the literal as text and they are
  equal. After \<^verbatim>\<open>apply(lambda t: "x")\<close> the first has the text \<^verbatim>\<open>x\<close>, the same
  identifier, and is not equal to the second.
\<close>

theorem PageBreak_instances_alike_witness:
  "text' (apply_calls [[returns_none]] (PageBreak_init (Some ''a'') (ID ''i1'') (Some [1, 2])
      (ElementMetadata_init PNone (PInt 3) PNone))) = ''<PAGE BREAK>''
   \<and> text' (apply_calls [] (PageBreak_init None NoID None ElementMetadata_default)) =
       ''<PAGE BREAK>''
   \<and> Text_eq
        (apply_calls [[returns_none]] (PageBreak_init (Some ''a'') (ID ''i1'') (Some [1, 2])
          (ElementMetadata_init PNone (PInt 3) PNone)))
        (apply_calls [] (PageBreak_init None NoID None ElementMetadata_default))
   \<and> Text_to_dict
        (apply_calls [[returns_none]] (PageBreak_init (Some ''a'') (ID ''i1'') (Some [1, 2])
          (ElementMetadata_init PNone (PInt 3) PNone))) =
       Text_to_dict (apply_calls [] (PageBreak_init None NoID None ElementMetadata_default))
   \<and> text' (apply_calls [[returns_none], [replace_with ''x'']]
        (PageBreak_init (Some ''a'') (ID ''i1'') (Some [1, 2])
          (ElementMetadata_init PNone (PInt 3) PNone))) = ''x''
   \<and> id' (apply_calls [[returns_none], [replace_with ''x'']]
        (PageBreak_init (Some ''a'') (ID ''i1'') (Some [1, 2])
          (ElementMetadata_init PNone (PInt 3) PNone))) =
       ID ''5ea24028ea5addabb8f07dfff681501d''
   \<and> \<not> Text_eq
        (apply_calls [[returns_none], [replace_with ''x'']]
          (PageBreak_init (Some ''a'') (ID ''i1'') (Some [1, 2])
            (ElementMetadata_init PNone (PInt 3) PNone)))
        (apply_calls [] (PageBreak_init None NoID None ElementMetadata_default))
   \<and> Text_to_dict
        (apply_calls [[returns_none], [replace_with ''x'']]
          (PageBreak_init (Some ''a'') (ID ''i1'') (Some [1, 2])
            (ElementMetadata_init PNone (PInt 3) PNone))) \<noteq>
       Text_to_dict (apply_calls [] (PageBreak_init None NoID None ElementMetadata_default))"
proof -
  let ?a = "PageBreak_init (Some ''a'') (ID ''i1'') (Some [1, 2])
      (ElementMetadata_init PNone (PInt 3) PNone)"
  let ?b = "PageBreak_init None NoID None ElementMetadata_default"
  let ?p = "apply_calls [[returns_none]] ?a"
  let ?p' = "apply_calls [[returns_none], [replace_with ''x'']] ?a"
  let ?q = "apply_calls [] ?b"
  have tp: "text' ?p = ''<PAGE BREAK>''"
    by (simp add: Text_apply_cases returns_none_def PageBreak_init_fields)
  have tp': "text' ?p' = ''x''"
    by (simp add: Text_apply_cases returns_none_def replace_with_def)
  have tq: "text' ?q = ''<PAGE BREAK>''"
    by (simp add: PageBreak_init_fields)
  have ne: "text' ?p' \<noteq> ''<PAGE BREAK>''"
    unfolding tp' by simp
  have still: "Text_eq ?p ?q \<and> Text_to_dict ?p = Text_to_dict ?q"
    using PageBreak_instances_alike [OF refl refl, of "[[returns_none]]" "Some ''a''" "ID ''i1''"
        "Some [1, 2]" "ElementMetadata_init PNone (PInt 3) PNone" "[]" None NoID None
        ElementMetadata_default] tp tq
    by blast
  have changed: "id' ?p' = ID ''5ea24028ea5addabb8f07dfff681501d''
      \<and> \<not> Text_eq ?p' ?q \<and> Text_to_dict ?p' \<noteq> Text_to_dict ?q"
    using PageBreak_instances_alike [OF refl refl, of "[[returns_none], [replace_with ''x'']]"
        "Some ''a''" "ID ''i1''" "Some [1, 2]" "ElementMetadata_init PNone (PInt 3) PNone" "[]"
        None NoID None ElementMetadata_default] ne tq
    by blast
  from tp tq tp' still changed show ?thesis
    by blast
qed

text \<open>
  Claim C10 as stated fails once \<^verbatim>\<open>apply\<close> has changed a text: after
  \<^verbatim>\<open>p = PageBreak(); p.apply(lambda t: "x")\<close>, \<^verbatim>\<open>p\<close> is not equal to \<^verbatim>\<open>PageBreak()\<close>
  and their dictionaries differ.
\<close>

theorem PageBreak_after_apply_counterexample:
  "\<not> Text_eq
        (snd (Text_apply [replace_with ''x'']
               (PageBreak_init None NoID None ElementMetadata_default)))
        (PageBreak_init None NoID None ElementMetadata_default)
   \<and> Text_to_dict
        (snd (Text_apply [replace_with ''x'']
               (PageBreak_init None NoID None ElementMetadata_default))) \<noteq>
       Text_to_dict (PageBreak_init None NoID None ElementMetadata_default)"
  by (simp add: Text_apply_cases replace_with_def PageBreak_init_def Text_init_fields Text_eq_def
      Text_to_dict_def)

end
